theory Spec2Isabelle
  imports Main
begin

section \<open>JavaScript values\<close>

text \<open>
  The engine stores values of type \<^verbatim>\<open>any\<close>. Primitives compare by value, arrays and
  objects carry a reference (the \<open>nat\<close>) and compare by it; a built-in object or
  function (\<^verbatim>\<open>Object\<close>, \<^verbatim>\<open>Object.prototype.toString\<close>) is named. Numbers are
  modelled as integers; \<^verbatim>\<open>NaN\<close> is not modelled.
\<close>

datatype jsval =
    JUndefined
  | JNull
  | JBool bool
  | JNum int
  | JStr string
  | JArr nat "jsval list"
  | JObj nat "(string \<times> jsval) list"
  | JBuiltin string

datatype js_error = ReferenceError string | TypeError string

text \<open>\<^verbatim>\<open>a === b\<close>\<close>

fun strict_eq :: "jsval \<Rightarrow> jsval \<Rightarrow> bool" where
  "strict_eq JUndefined JUndefined = True"
| "strict_eq JNull JNull = True"
| "strict_eq (JBool a) (JBool b) = (a = b)"
| "strict_eq (JNum a) (JNum b) = (a = b)"
| "strict_eq (JStr a) (JStr b) = (a = b)"
| "strict_eq (JArr r _) (JArr r' _) = (r = r')"
| "strict_eq (JObj r _) (JObj r' _) = (r = r')"
| "strict_eq (JBuiltin a) (JBuiltin b) = (a = b)"
| "strict_eq _ _ = False"

text \<open>\<^verbatim>\<open>a ?? b\<close>: the right operand when the left one is \<^verbatim>\<open>null\<close> or \<^verbatim>\<open>undefined\<close>.\<close>

definition nullish :: "jsval \<Rightarrow> jsval \<Rightarrow> jsval" where
  "nullish a b = (if a = JUndefined \<or> a = JNull then b else a)"

text \<open>
  A plain object used as a record of fields (\<^verbatim>\<open>diff\<close>, \<^verbatim>\<open>upstreamData\<close>,
  \<^verbatim>\<open>formValues\<close>): a map from its own keys to values; a key may be present and hold
  \<^verbatim>\<open>undefined\<close>. Its prototype is \<^verbatim>\<open>Object.prototype\<close>, whose members every plain
  object inherits: the functions, and the accessor \<^verbatim>\<open>__proto__\<close> that gives the
  prototype itself.
\<close>

type_synonym obj = "string \<rightharpoonup> jsval"

definition Object_prototype :: "string \<rightharpoonup> jsval" where
  "Object_prototype =
     map_of
       [(''constructor'', JBuiltin ''Object''),
        (''__proto__'', JBuiltin ''Object.prototype''),
        (''toString'', JBuiltin ''Object.prototype.toString''),
        (''toLocaleString'', JBuiltin ''Object.prototype.toLocaleString''),
        (''valueOf'', JBuiltin ''Object.prototype.valueOf''),
        (''hasOwnProperty'', JBuiltin ''Object.prototype.hasOwnProperty''),
        (''isPrototypeOf'', JBuiltin ''Object.prototype.isPrototypeOf''),
        (''propertyIsEnumerable'', JBuiltin ''Object.prototype.propertyIsEnumerable''),
        (''__defineGetter__'', JBuiltin ''Object.prototype.__defineGetter__''),
        (''__defineSetter__'', JBuiltin ''Object.prototype.__defineSetter__''),
        (''__lookupGetter__'', JBuiltin ''Object.prototype.__lookupGetter__''),
        (''__lookupSetter__'', JBuiltin ''Object.prototype.__lookupSetter__'')]"

text \<open>
  \<^verbatim>\<open>ob[key]\<close>: the object's own key when it has one, else the member of
  \<^verbatim>\<open>Object.prototype\<close> of that name, else \<^verbatim>\<open>undefined\<close>. The objects the engine
  builds get their keys from a spread or, in the reduces, from an assignment
  \<^verbatim>\<open>acc[key] = v\<close>, which both make an own key; only an assignment under
  \<^verbatim>\<open>__proto__\<close> would call the accessor instead, and that is not modelled.
\<close>

definition js_get :: "obj \<Rightarrow> string \<Rightarrow> jsval" where
  "js_get ob key =
     (case ob key of
        Some v \<Rightarrow> v
      | None \<Rightarrow> (case Object_prototype key of Some v \<Rightarrow> v | None \<Rightarrow> JUndefined))"

text \<open>
  \<^verbatim>\<open>v.p\<close> for the properties \<^verbatim>\<open>target\<close> and \<^verbatim>\<open>value\<close> of a change event: a
  TypeError on \<^verbatim>\<open>undefined\<close> and \<^verbatim>\<open>null\<close>, \<^verbatim>\<open>undefined\<close> on a value that does
  not carry the property.
\<close>

fun js_member :: "jsval \<Rightarrow> string \<Rightarrow> js_error + jsval" where
  "js_member JUndefined p = Inl (TypeError p)"
| "js_member JNull p = Inl (TypeError p)"
| "js_member (JObj r kvs) p = Inr (case map_of kvs p of None \<Rightarrow> JUndefined | Some v \<Rightarrow> v)"
| "js_member _ p = Inr JUndefined"

section \<open>The schema validator\<close>

text \<open>
  The validator is the external library zod. A field schema is what the engine uses of
  it: \<^verbatim>\<open>safeParse\<close>, which returns the parsed value or a \<^verbatim>\<open>ZodError\<close> and does not
  throw, and \<^verbatim>\<open>isOptional()\<close>.
\<close>

datatype ZodIssue = ZodIssue (issue_path: "string list") (issue_message: string)

datatype ZodError = ZodError (errors: "ZodIssue list") (message: string)

datatype ZodType = ZodType (safeParse: "jsval \<Rightarrow> ZodError + jsval") (isOptional: bool)

type_synonym ZodRawShape = "(string \<times> ZodType) list"

datatype ZodObject = ZodObject (shape: ZodRawShape)

text \<open>\<^verbatim>\<open>Object.keys(schema.shape)\<close>, in insertion order.\<close>

definition Object_keys :: "ZodRawShape \<Rightarrow> string list" where
  "Object_keys sh = map fst sh"

text \<open>\<^verbatim>\<open>schema.shape[key]\<close>\<close>

definition shape_get :: "ZodObject \<Rightarrow> string \<Rightarrow> ZodType option" where
  "shape_get schema key = map_of (shape schema) key"

text \<open>
  Modelled from the spec: \<^verbatim>\<open>schema.safeParse(record)\<close> of a zod object schema, whose
  code is not in the repository. The spec describes the validator as a black box that
  checks a single value in isolation and checks the full record, the full record
  passing when no field of it produces an error; on success it gives the parsed
  record, on failure the issues of all failing fields. The keys are visited as
  \<^verbatim>\<open>Object.keys(shape)\<close> lists them, each value read from the input under its key.
\<close>

fun parse_keys :: "ZodObject \<Rightarrow> obj \<Rightarrow> string list \<Rightarrow> ZodIssue list + obj" where
  "parse_keys schema input [] = Inr Map.empty"
| "parse_keys schema input (key # keys) =
     (case shape_get schema key of
        None \<Rightarrow> parse_keys schema input keys
      | Some keyValidator \<Rightarrow>
          (case (safeParse keyValidator (js_get input key), parse_keys schema input keys) of
             (Inr v, Inr out) \<Rightarrow> Inr (out(key \<mapsto> v))
           | (Inr v, Inl issues) \<Rightarrow> Inl issues
           | (Inl e, Inr out) \<Rightarrow>
               Inl (map (\<lambda>i. ZodIssue (key # issue_path i) (issue_message i)) (errors e))
           | (Inl e, Inl issues) \<Rightarrow>
               Inl (map (\<lambda>i. ZodIssue (key # issue_path i) (issue_message i)) (errors e) @ issues)))"

definition safeParseObject :: "ZodObject \<Rightarrow> obj \<Rightarrow> ZodError + obj" where
  "safeParseObject schema input =
     (case parse_keys schema input (Object_keys (shape schema)) of
        Inl issues \<Rightarrow> Inl (ZodError issues (concat (map issue_message issues)))
      | Inr out \<Rightarrow> Inr out)"

text \<open>
  What \<^verbatim>\<open>fieldErrors[fieldName]\<close> reads from the object of field errors: the
  \<^verbatim>\<open>ZodError\<close> stored under the name, or the member of \<^verbatim>\<open>Object.prototype\<close> of
  that name, or \<^verbatim>\<open>undefined\<close>. Only the last is falsy.
\<close>

datatype fieldError = NoError | SchemaError ZodError | InheritedMember jsval

text \<open>
  \<^verbatim>\<open>error.errors[0]?.message ?? error.message\<close>. A value that is not a
  \<^verbatim>\<open>ZodError\<close> has no \<^verbatim>\<open>errors\<close>, and reading \<^verbatim>\<open>[0]\<close> of
  \<^verbatim>\<open>undefined\<close> throws a TypeError.
\<close>

definition defaultFormatErrorMessage :: "fieldError \<Rightarrow> string \<Rightarrow> js_error + string" where
  "defaultFormatErrorMessage error key =
     (case error of
        SchemaError e \<Rightarrow> Inr (case errors e of [] \<Rightarrow> message e | i # _ \<Rightarrow> issue_message i)
      | InheritedMember v \<Rightarrow> Inl (TypeError ''0'')
      | NoError \<Rightarrow> Inl (TypeError ''errors''))"

section \<open>The form state and the engine's closures\<close>

datatype ShowValidationOn = ShowTouched | ShowAlways

datatype UntouchOn = UntouchFocus | UntouchChange | UntouchNever

text \<open>
  The two \<^verbatim>\<open>useState\<close> cells of \<^verbatim>\<open>useForm\<close>. Every closure of the hook reads the
  cells of the render that made it; the setters act on the current cells.
\<close>

record form_state =
  diff :: obj
  touchedFields :: "string \<rightharpoonup> bool"

text \<open>\<^verbatim>\<open>setDiff(updater)\<close> and \<^verbatim>\<open>setTouchedFields(updater)\<close> of React.\<close>

definition setDiff :: "(obj \<Rightarrow> obj) \<Rightarrow> form_state \<Rightarrow> form_state" where
  "setDiff updater st = st\<lparr>diff := updater (diff st)\<rparr>"

definition setTouchedFields ::
  "((string \<rightharpoonup> bool) \<Rightarrow> (string \<rightharpoonup> bool)) \<Rightarrow> form_state \<Rightarrow> form_state" where
  "setTouchedFields updater st = st\<lparr>touchedFields := updater (touchedFields st)\<rparr>"

text \<open>
  \<^verbatim>\<open>!!touchedFields[fieldName]\<close>: the flag stored under the name; without one, an
  inherited member of \<^verbatim>\<open>Object.prototype\<close> is truthy and \<^verbatim>\<open>undefined\<close> is not.
\<close>

definition isTouched :: "(string \<rightharpoonup> bool) \<Rightarrow> string \<Rightarrow> bool" where
  "isTouched tf fieldName =
     (case tf fieldName of None \<Rightarrow> Object_prototype fieldName \<noteq> None | Some b \<Rightarrow> b)"

definition setTouched :: "string \<Rightarrow> bool \<Rightarrow> form_state \<Rightarrow> form_state" where
  "setTouched fieldName t st = setTouchedFields (\<lambda>prev. prev(fieldName \<mapsto> t)) st"

text \<open>\<^verbatim>\<open>diff[fieldName] !== undefined\<close>\<close>

definition isDiff :: "obj \<Rightarrow> string \<Rightarrow> bool" where
  "isDiff d fieldName = (js_get d fieldName \<noteq> JUndefined)"

definition getUpstreamValue :: "obj \<Rightarrow> string \<Rightarrow> jsval" where
  "getUpstreamValue upstreamData fieldName = js_get upstreamData fieldName"

text \<open>
  \<^verbatim>\<open>formValues\<close>: the reduce over \<^verbatim>\<open>fieldKeys\<close> that sets
  \<^verbatim>\<open>acc[key] = diff[key] ?? getUpstreamValue(key)\<close>.
\<close>

definition formValues :: "string list \<Rightarrow> obj \<Rightarrow> obj \<Rightarrow> obj" where
  "formValues fieldKeys d upstreamData =
     fold (\<lambda>key acc. acc(key \<mapsto> nullish (js_get d key) (getUpstreamValue upstreamData key)))
       fieldKeys Map.empty"

definition getValue :: "obj \<Rightarrow> string \<Rightarrow> jsval" where
  "getValue fv fieldName = js_get fv fieldName"

text \<open>The older variant of the hook reads the overlay directly.\<close>

definition getValue_rcf :: "obj \<Rightarrow> obj \<Rightarrow> string \<Rightarrow> jsval" where
  "getValue_rcf d upstreamData fieldName =
     nullish (js_get d fieldName) (getUpstreamValue upstreamData fieldName)"

text \<open>\<^verbatim>\<open>fieldErrors[fieldName]\<close>\<close>

definition getError :: "(string \<rightharpoonup> ZodError) \<Rightarrow> string \<Rightarrow> fieldError" where
  "getError fe fieldName =
     (case fe fieldName of
        Some e \<Rightarrow> SchemaError e
      | None \<Rightarrow>
          (case Object_prototype fieldName of Some v \<Rightarrow> InheritedMember v | None \<Rightarrow> NoError))"

text \<open>
  Reading a \<^verbatim>\<open>const\<close> binding: \<open>None\<close> is a binding whose declaration has not been
  evaluated yet (the temporal dead zone), and reading it throws a ReferenceError.
\<close>

definition read_const :: "string \<Rightarrow> 'a option \<Rightarrow> js_error + 'a" where
  "read_const nm binding = (case binding of None \<Rightarrow> Inl (ReferenceError nm) | Some x \<Rightarrow> Inr x)"

text \<open>
  The callback of the \<^verbatim>\<open>fieldErrors\<close> reduce:
  \<^verbatim>\<open>itemSchema.safeParse(getValue(key))\<close>, the error stored under the key when the
  parse fails. The member \<^verbatim>\<open>itemSchema.safeParse\<close> is read before the argument is
  evaluated.
\<close>

definition fieldErrors_callback ::
  "ZodObject \<Rightarrow> (string \<Rightarrow> jsval) option \<Rightarrow> (string \<rightharpoonup> ZodError) \<Rightarrow> string
     \<Rightarrow> js_error + (string \<rightharpoonup> ZodError)" where
  "fieldErrors_callback schema getValue_binding acc key =
     (case shape_get schema key of
        None \<Rightarrow> Inl (TypeError ''safeParse'')
      | Some itemSchema \<Rightarrow>
          (case read_const ''getValue'' getValue_binding of
             Inl e \<Rightarrow> Inl e
           | Inr gv \<Rightarrow>
               (case safeParse itemSchema (gv key) of
                  Inl err \<Rightarrow> Inr (acc(key \<mapsto> err))
                | Inr data \<Rightarrow> Inr acc)))"

text \<open>\<^verbatim>\<open>Array.prototype.reduce\<close> with a callback that may throw.\<close>

fun reduce_throwing :: "('a \<Rightarrow> 'k \<Rightarrow> js_error + 'a) \<Rightarrow> 'k list \<Rightarrow> 'a \<Rightarrow> js_error + 'a" where
  "reduce_throwing f [] acc = Inr acc"
| "reduce_throwing f (k # ks) acc =
     (case f acc k of Inl e \<Rightarrow> Inl e | Inr acc' \<Rightarrow> reduce_throwing f ks acc')"

definition fieldErrors ::
  "ZodObject \<Rightarrow> (string \<Rightarrow> jsval) option \<Rightarrow> string list \<Rightarrow> js_error + (string \<rightharpoonup> ZodError)" where
  "fieldErrors schema getValue_binding fieldKeys =
     reduce_throwing (fieldErrors_callback schema getValue_binding) fieldKeys Map.empty"

text \<open>
  \<^verbatim>\<open>touchAll\<close>, \<^verbatim>\<open>initTouched\<close>, \<^verbatim>\<open>resetTouched\<close>, \<^verbatim>\<open>reset\<close>, \<^verbatim>\<open>formDirty\<close>.
  In \<^verbatim>\<open>initTouched\<close> the per-field map of the config is a plain object too, read as
  \<^verbatim>\<open>config.initTouched?.[key] ?? false\<close> and stored as it is; the touched map keeps
  its truthiness.
\<close>

definition touchAll :: "string list \<Rightarrow> form_state \<Rightarrow> form_state" where
  "touchAll fieldKeys st =
     setTouchedFields (\<lambda>prev. fold (\<lambda>key acc. acc(key \<mapsto> True)) fieldKeys Map.empty) st"

datatype InitTouched = InitTouchedAll bool | InitTouchedMap "string \<rightharpoonup> bool"

definition initTouched :: "string list \<Rightarrow> InitTouched option \<Rightarrow> (string \<rightharpoonup> bool)" where
  "initTouched fieldKeys cfg =
     fold (\<lambda>key acc. acc(key \<mapsto>
             (case cfg of
                Some (InitTouchedAll b) \<Rightarrow> b
              | Some (InitTouchedMap m) \<Rightarrow>
                  (case m key of None \<Rightarrow> Object_prototype key \<noteq> None | Some b \<Rightarrow> b)
              | None \<Rightarrow> False)))
       fieldKeys Map.empty"

definition resetTouched :: "(string \<rightharpoonup> bool) \<Rightarrow> form_state \<Rightarrow> form_state" where
  "resetTouched initT st = setTouchedFields (\<lambda>prev. initT) st"


definition formDirty :: "string list \<Rightarrow> obj \<Rightarrow> bool" where
  "formDirty fieldKeys d = (length (filter (isDiff d) fieldKeys) > 0)"

text \<open>
  \<^verbatim>\<open>handleSubmit(onSubmit, onError)\<close>. A callback is an effect on the host, a function
  on the host's state \<open>'h\<close>; \<^verbatim>\<open>onError\<close> is optional and called through \<^verbatim>\<open>?.\<close>.
  The result is the host's state when \<^verbatim>\<open>handleSubmit\<close> returns.
\<close>

definition handleSubmit ::
  "ZodObject \<Rightarrow> obj \<Rightarrow> (obj \<Rightarrow> 'h \<Rightarrow> 'h) \<Rightarrow> (ZodError \<Rightarrow> 'h \<Rightarrow> 'h) option \<Rightarrow> 'h \<Rightarrow> 'h" where
  "handleSubmit schema fv onSubmit onError h =
     (case safeParseObject schema fv of
        Inr data \<Rightarrow> onSubmit data h
      | Inl err \<Rightarrow> (case onError of None \<Rightarrow> h | Some f \<Rightarrow> f err h))"

text \<open>The older variant first collects \<^verbatim>\<open>fields[key] = getValue(key)\<close>.\<close>

definition fields_rcf :: "string list \<Rightarrow> obj \<Rightarrow> obj \<Rightarrow> obj" where
  "fields_rcf fieldKeys d upstreamData =
     fold (\<lambda>key acc. acc(key \<mapsto> getValue_rcf d upstreamData key)) fieldKeys Map.empty"

definition handleSubmit_rcf ::
  "ZodObject \<Rightarrow> obj \<Rightarrow> obj \<Rightarrow> (obj \<Rightarrow> 'h \<Rightarrow> 'h) \<Rightarrow> (ZodError \<Rightarrow> 'h \<Rightarrow> 'h) option \<Rightarrow> 'h \<Rightarrow> 'h" where
  "handleSubmit_rcf schema d upstreamData onSubmit onError h =
     (case safeParseObject schema (fields_rcf (Object_keys (shape schema)) d upstreamData) of
        Inr data \<Rightarrow> onSubmit data h
      | Inl err \<Rightarrow> (case onError of None \<Rightarrow> h | Some f \<Rightarrow> f err h))"

section \<open>The field binding\<close>

text \<open>
  \<^verbatim>\<open>UseFieldCtx\<close>, the object \<^verbatim>\<open>ctx\<close> that \<^verbatim>\<open>useForm\<close> hands to every field.
\<close>

record UseFieldCtx =
  ctx_schema :: ZodObject
  ctx_formValues :: obj
  ctx_isDirty :: "string \<Rightarrow> bool"
  ctx_isTouched :: "string \<Rightarrow> bool"
  ctx_getValue :: "string \<Rightarrow> jsval"
  ctx_setTouched :: "string \<Rightarrow> bool \<Rightarrow> form_state \<Rightarrow> form_state"
  ctx_getError :: "string \<Rightarrow> fieldError"
  ctx_getUpstreamValue :: "string \<Rightarrow> jsval"
  ctx_setDiff :: "(obj \<Rightarrow> obj) \<Rightarrow> form_state \<Rightarrow> form_state"
  ctx_formatErrorMessage :: "fieldError \<Rightarrow> string \<Rightarrow> js_error + string"
  ctx_defaultShowValidationOn :: ShowValidationOn
  ctx_defaultUntouchOn :: UntouchOn

record UseFieldOptions =
  opt_disabled :: "bool option"
  opt_disabledIf :: "(obj \<Rightarrow> bool) option"
  opt_showValidationOn :: "ShowValidationOn option"
  opt_unTouchOn :: "UntouchOn option"
  opt_parseValue :: "(jsval list \<Rightarrow> jsval) option"
  opt_isEqual :: "(jsval \<Rightarrow> jsval \<Rightarrow> bool) option"

record FieldInputProps =
  ip_value :: jsval
  ip_disabled :: bool
  ip_required :: bool
  ip_name :: string
  ip_data_valid :: bool
  ip_onChange :: "jsval list \<Rightarrow> form_state \<Rightarrow> js_error + form_state"
  ip_onBlur :: "form_state \<Rightarrow> form_state"
  ip_onFocus :: "form_state \<Rightarrow> form_state"

record FieldProps =
  inputProps :: FieldInputProps
  upstreamValue :: jsval
  disabled :: bool
  touched :: bool
  dirty :: bool
  valid :: bool
  errorMessage :: "string option"

definition defaultIsEqual :: "jsval \<Rightarrow> jsval \<Rightarrow> bool" where
  "defaultIsEqual a b = strict_eq a b"

text \<open>A destructuring default, \<^verbatim>\<open>{ x = d } = options\<close>: \<open>d\<close> when the option is not given.\<close>

definition or_default :: "'a option \<Rightarrow> 'a \<Rightarrow> 'a" where
  "or_default given d = (case given of None \<Rightarrow> d | Some v \<Rightarrow> v)"

text \<open>
  The value \<^verbatim>\<open>onChange\<close> reads from its arguments: \<^verbatim>\<open>parseValue(...args)\<close> when the
  option is given, else \<^verbatim>\<open>args[0].target.value\<close>, which throws a TypeError when the
  first argument is not an event.
\<close>

definition parsed_value :: "(jsval list \<Rightarrow> jsval) option \<Rightarrow> jsval list \<Rightarrow> js_error + jsval" where
  "parsed_value parseValue args =
     (case parseValue of
        Some p \<Rightarrow> Inr (p args)
      | None \<Rightarrow>
          (case js_member (case args of [] \<Rightarrow> JUndefined | a # _ \<Rightarrow> a) ''target'' of
             Inl e \<Rightarrow> Inl e
           | Inr t \<Rightarrow> js_member t ''value''))"

text \<open>
  \<^verbatim>\<open>useField(ctx, name, options)\<close>. The handlers take the form state at the time of
  the event and return the state after their setter calls; \<^verbatim>\<open>onChange\<close> throws, and
  sets nothing, when the value cannot be read from its arguments. The error message
  is computed first, and \<^verbatim>\<open>formatErrorMessage\<close> is a function of the caller that may
  throw. Building \<^verbatim>\<open>inputProps\<close> then calls \<^verbatim>\<open>schema.shape[name].isOptional()\<close>, a
  TypeError for a name the schema does not have.
\<close>

definition useField :: "UseFieldCtx \<Rightarrow> string \<Rightarrow> UseFieldOptions \<Rightarrow> js_error + FieldProps" where
  "useField c name options =
     (let disabled0 = or_default (opt_disabled options) False;
          showValidationOn =
            or_default (opt_showValidationOn options) (ctx_defaultShowValidationOn c);
          unTouchOn = or_default (opt_unTouchOn options) (ctx_defaultUntouchOn c);
          parseValue = opt_parseValue options;
          disabledIf = opt_disabledIf options;
          isEqual = or_default (opt_isEqual options) defaultIsEqual;
          touched0 = ctx_isTouched c name;
          upstreamValue0 = ctx_getUpstreamValue c name;
          onChange = (\<lambda>args st.
            (case parsed_value parseValue args of
               Inl e \<Rightarrow> Inl e
             | Inr v \<Rightarrow>
                 (let st1 =
                    (if isEqual v upstreamValue0
                     then ctx_setDiff c (\<lambda>prev. prev(name \<mapsto> JUndefined)) st
                     else ctx_setDiff c (\<lambda>prev. prev(name \<mapsto> v)) st)
                  in Inr (if unTouchOn = UntouchChange
                          then ctx_setTouched c name False st1 else st1))));
          onFocus = (\<lambda>st. if unTouchOn = UntouchFocus then ctx_setTouched c name False st else st);
          onBlur = (\<lambda>st. ctx_setTouched c name True st);
          dirty0 = ctx_isDirty c name;
          error = ctx_getError c name;
          valid0 = (error = NoError);
          errorMessage0 =
            (if error = NoError then Inr None
             else if showValidationOn = ShowTouched \<and> \<not> touched0 then Inr None
             else (case ctx_formatErrorMessage c error name of
                     Inl e \<Rightarrow> Inl e
                   | Inr msg \<Rightarrow> Inr (Some msg)))
      in (case errorMessage0 of
            Inl e \<Rightarrow> Inl e
          | Inr errorMessage1 \<Rightarrow>
          (case shape_get (ctx_schema c) name of
            None \<Rightarrow> Inl (TypeError ''isOptional'')
          | Some itemSchema \<Rightarrow>
              Inr \<lparr> inputProps =
                      \<lparr> ip_value = ctx_getValue c name,
                        ip_disabled =
                          (if disabled0 then True
                           else (case disabledIf of
                                   None \<Rightarrow> False
                                 | Some f \<Rightarrow> f (ctx_formValues c))),
                        ip_required = (\<not> isOptional itemSchema),
                        ip_name = name,
                        ip_data_valid = valid0,
                        ip_onChange = onChange,
                        ip_onBlur = onBlur,
                        ip_onFocus = onFocus \<rparr>,
                    upstreamValue = upstreamValue0,
                    disabled = disabled0,
                    touched = touched0,
                    dirty = dirty0,
                    valid = valid0,
                    errorMessage = errorMessage1 \<rparr>)))"

section \<open>The hook\<close>

record UseFormConfig =
  cfg_formatErrorMessage :: "(fieldError \<Rightarrow> string \<Rightarrow> js_error + string) option"
  cfg_isEqual :: "(string \<rightharpoonup> (jsval \<Rightarrow> jsval \<Rightarrow> bool)) option"
  cfg_initTouched :: "InitTouched option"
  cfg_defaultShowValidationOn :: "ShowValidationOn option"
  cfg_defaultUntouchOn :: "UntouchOn option"

record UseFormResult =
  res_ctx :: UseFieldCtx
  res_noValidate :: bool
  res_formDirty :: bool

text \<open>The object literal \<^verbatim>\<open>ctx\<close> of \<^verbatim>\<open>useForm\<close>, over the bindings it closes over.\<close>

definition ctx ::
  "ZodObject \<Rightarrow> obj \<Rightarrow> (string \<rightharpoonup> ZodError) \<Rightarrow> form_state \<Rightarrow> obj
     \<Rightarrow> (fieldError \<Rightarrow> string \<Rightarrow> js_error + string) \<Rightarrow> ShowValidationOn \<Rightarrow> UntouchOn
     \<Rightarrow> UseFieldCtx" where
  "ctx schema fv fe st upstreamData fmt dsv duo =
     \<lparr> ctx_schema = schema,
       ctx_formValues = fv,
       ctx_isDirty = isDiff (diff st),
       ctx_isTouched = isTouched (touchedFields st),
       ctx_getValue = getValue fv,
       ctx_setTouched = setTouched,
       ctx_getError = getError fe,
       ctx_getUpstreamValue = getUpstreamValue upstreamData,
       ctx_setDiff = setDiff,
       ctx_formatErrorMessage = fmt,
       ctx_defaultShowValidationOn = dsv,
       ctx_defaultUntouchOn = duo \<rparr>"

text \<open>The state of the first render: \<^verbatim>\<open>useState({})\<close> and \<^verbatim>\<open>useState(initTouched)\<close>.\<close>

definition mount :: "ZodObject \<Rightarrow> UseFormConfig \<Rightarrow> form_state" where
  "mount schema config =
     \<lparr> diff = Map.empty,
       touchedFields = initTouched (Object_keys (shape schema)) (cfg_initTouched config) \<rparr>"

text \<open>
  One render of \<^verbatim>\<open>useForm(schema, upstreamData, config)\<close> on the state \<open>st\<close>, its
  statements in the order the body has them. The \<^verbatim>\<open>fieldErrors\<close> reduce runs where
  it is written, before the declarations of \<^verbatim>\<open>formValues\<close> and \<^verbatim>\<open>getValue\<close> that
  follow it: its callback reads \<^verbatim>\<open>getValue\<close> while that binding is not initialised.
  The config's \<^verbatim>\<open>isEqual\<close> is declared in \<^verbatim>\<open>UseFormConfig\<close> and read nowhere in
  the body: \<^verbatim>\<open>ctx\<close> has no member for it.
  Of the object the hook returns, the result keeps \<^verbatim>\<open>ctx\<close>, \<^verbatim>\<open>formProps\<close> and
  \<^verbatim>\<open>formDirty\<close>; \<^verbatim>\<open>reset\<close>, \<^verbatim>\<open>handleSubmit\<close>, \<^verbatim>\<open>touchAll\<close> and
  \<^verbatim>\<open>resetTouched\<close> are the closures defined above.
\<close>

definition useForm :: "ZodObject \<Rightarrow> obj \<Rightarrow> UseFormConfig \<Rightarrow> form_state \<Rightarrow> js_error + UseFormResult" where
  "useForm schema upstreamData config st =
     (let fieldKeys = Object_keys (shape schema);
          dsv = or_default (cfg_defaultShowValidationOn config) ShowTouched;
          duo = or_default (cfg_defaultUntouchOn config) UntouchFocus;
          fmt = or_default (cfg_formatErrorMessage config) defaultFormatErrorMessage
      in (case fieldErrors schema None fieldKeys of
            Inl e \<Rightarrow> Inl e
          | Inr fe \<Rightarrow>
              (let fv = formValues fieldKeys (diff st) upstreamData
               in Inr \<lparr> res_ctx = ctx schema fv fe st upstreamData fmt dsv duo,
                        res_noValidate = True,
                        res_formDirty = formDirty fieldKeys (diff st) \<rparr>)))"



section \<open>Events\<close>

text \<open>
  The host calls the handlers of a binding as the user acts on the input. An
  \<^verbatim>\<open>onChange\<close> that throws has set nothing, and the state stays as it was.
\<close>

datatype event = Change "jsval list" | Focus | Blur

definition fire :: "FieldProps \<Rightarrow> event \<Rightarrow> form_state \<Rightarrow> form_state" where
  "fire props ev st =
     (case ev of
        Change args \<Rightarrow>
          (case ip_onChange (inputProps props) args st of Inl e \<Rightarrow> st | Inr st' \<Rightarrow> st')
      | Focus \<Rightarrow> ip_onFocus (inputProps props) st
      | Blur \<Rightarrow> ip_onBlur (inputProps props) st)"

definition fire_all :: "FieldProps \<Rightarrow> event list \<Rightarrow> form_state \<Rightarrow> form_state" where
  "fire_all props evs st = fold (fire props) evs st"

section \<open>Example forms\<close>

text \<open>
  Field schemas in the manner of the README's user form: a required string, an email
  address, and a string that may be \<^verbatim>\<open>null\<close> (\<^verbatim>\<open>z.string().nullable()\<close>).
\<close>

definition nonEmptyString :: ZodType where
  "nonEmptyString =
     ZodType
       (\<lambda>v. case v of
               JStr s \<Rightarrow>
                 if s = [] then Inl (ZodError [ZodIssue [] ''Required''] ''Required'')
                 else Inr v
             | _ \<Rightarrow> Inl (ZodError [ZodIssue [] ''Expected string''] ''Expected string''))
       False"

definition emailString :: ZodType where
  "emailString =
     ZodType
       (\<lambda>v. case v of
               JStr s \<Rightarrow>
                 if CHR ''@'' \<in> set s then Inr v
                 else Inl (ZodError [ZodIssue [] ''Invalid email address'']
                             ''Invalid email address'')
             | _ \<Rightarrow> Inl (ZodError [ZodIssue [] ''Expected string''] ''Expected string''))
       False"

definition nullableString :: ZodType where
  "nullableString =
     ZodType
       (\<lambda>v. case v of
               JStr s \<Rightarrow> Inr v
             | JNull \<Rightarrow> Inr v
             | _ \<Rightarrow> Inl (ZodError [ZodIssue [] ''Expected string''] ''Expected string''))
       False"

definition userSchema :: ZodObject where
  "userSchema = ZodObject [(''firstName'', nonEmptyString), (''email'', emailString)]"

definition userUpstream :: obj where
  "userUpstream = [''firstName'' \<mapsto> JStr ''John'', ''email'' \<mapsto> JStr ''johndoe@example.com'']"

definition profileSchema :: ZodObject where
  "profileSchema = ZodObject [(''firstName'', nonEmptyString), (''middleName'', nullableString)]"

definition profileUpstream :: obj where
  "profileUpstream = [''firstName'' \<mapsto> JStr ''John'', ''middleName'' \<mapsto> JStr ''Lee'']"

definition defaultConfig :: UseFormConfig where
  "defaultConfig =
     \<lparr> cfg_formatErrorMessage = None, cfg_isEqual = None, cfg_initTouched = None,
       cfg_defaultShowValidationOn = None, cfg_defaultUntouchOn = None \<rparr>"

definition noOptions :: UseFieldOptions where
  "noOptions =
     \<lparr> opt_disabled = None, opt_disabledIf = None, opt_showValidationOn = None,
       opt_unTouchOn = None, opt_parseValue = None, opt_isEqual = None \<rparr>"

text \<open>A widget that hands its value to \<^verbatim>\<open>onChange\<close> itself: \<^verbatim>\<open>parseValue: (v) => v\<close>.\<close>

definition firstArg :: "jsval list \<Rightarrow> jsval" where
  "firstArg args = (case args of [] \<Rightarrow> JUndefined | a # _ \<Rightarrow> a)"

text \<open>A change event whose \<^verbatim>\<open>target.value\<close> is the string \<open>s\<close>.\<close>

definition changeEvent :: "string \<Rightarrow> jsval" where
  "changeEvent s = JObj 1 [(''target'', JObj 2 [(''value'', JStr s)])]"

text \<open>Host callbacks that record their call in a log.\<close>

datatype call = CalledOnSubmit obj | CalledOnError ZodError

definition log_onSubmit :: "obj \<Rightarrow> call list \<Rightarrow> call list" where
  "log_onSubmit data h = h @ [CalledOnSubmit data]"

definition log_onError :: "ZodError \<Rightarrow> call list \<Rightarrow> call list" where
  "log_onError err h = h @ [CalledOnError err]"

text \<open>\<^verbatim>\<open>result.success\<close>\<close>

definition success :: "'e + 'a \<Rightarrow> bool" where
  "success r = (case r of Inl e \<Rightarrow> False | Inr x \<Rightarrow> True)"

text \<open>
  The \<^verbatim>\<open>ctx\<close> a render builds under the default config, for the state \<open>st\<close> and the
  field errors \<open>fe\<close> of that render.
\<close>

definition rendered_ctx ::
  "ZodObject \<Rightarrow> obj \<Rightarrow> (string \<rightharpoonup> ZodError) \<Rightarrow> form_state \<Rightarrow> UseFieldCtx" where
  "rendered_ctx schema upstreamData fe st =
     ctx schema (formValues (Object_keys (shape schema)) (diff st) upstreamData) fe st
       upstreamData defaultFormatErrorMessage ShowTouched UntouchFocus"





text \<open>
  The \<^verbatim>\<open>ctx\<close> a render builds from a config: the three defaults the body
  destructures from it, and nothing else of it.
\<close>

definition configured_ctx ::
  "ZodObject \<Rightarrow> obj \<Rightarrow> UseFormConfig \<Rightarrow> (string \<rightharpoonup> ZodError) \<Rightarrow> form_state \<Rightarrow> UseFieldCtx" where
  "configured_ctx schema upstreamData config fe st =
     ctx schema (formValues (Object_keys (shape schema)) (diff st) upstreamData) fe st
       upstreamData
       (or_default (cfg_formatErrorMessage config) defaultFormatErrorMessage)
       (or_default (cfg_defaultShowValidationOn config) ShowTouched)
       (or_default (cfg_defaultUntouchOn config) UntouchFocus)"

text \<open>
  Modelled from the spec: the equality function of a field as the spec and the README
  describe it, the \<^verbatim>\<open>isEqual\<close> given to the binding, else the one registered for the
  field in the form's config, else \<^verbatim>\<open>===\<close>.
\<close>

definition documented_isEqual ::
  "UseFormConfig \<Rightarrow> UseFieldOptions \<Rightarrow> string \<Rightarrow> jsval \<Rightarrow> jsval \<Rightarrow> bool" where
  "documented_isEqual config options name =
     or_default (opt_isEqual options)
       (case cfg_isEqual config of
          None \<Rightarrow> defaultIsEqual
        | Some registered \<Rightarrow> or_default (registered name) defaultIsEqual)"

text \<open>
  The README's permissions field: a non-empty array of strings, compared as an
  unordered collection by the \<^verbatim>\<open>isEqual\<close> registered in the form's config.
\<close>

definition stringArray :: ZodType where
  "stringArray =
     ZodType
       (\<lambda>v. case v of
               JArr r xs \<Rightarrow>
                 if xs = []
                 then Inl (ZodError [ZodIssue [] ''Please select at least one permission'']
                             ''Please select at least one permission'')
                 else Inr v
             | _ \<Rightarrow> Inl (ZodError [ZodIssue [] ''Expected array''] ''Expected array''))
       False"

definition sameMembers :: "jsval \<Rightarrow> jsval \<Rightarrow> bool" where
  "sameMembers a b =
     (case (a, b) of
        (JArr r xs, JArr r' ys) \<Rightarrow> list_all (\<lambda>x. count_list xs x = count_list ys x) (xs @ ys)
      | _ \<Rightarrow> strict_eq a b)"

definition permissionsSchema :: ZodObject where
  "permissionsSchema = ZodObject [(''permissions'', stringArray)]"

definition permissionsUpstream :: obj where
  "permissionsUpstream = [''permissions'' \<mapsto> JArr 1 [JStr ''Read'', JStr ''Write'']]"

definition permissionsConfig :: UseFormConfig where
  "permissionsConfig = defaultConfig\<lparr>cfg_isEqual := Some [''permissions'' \<mapsto> sameMembers]\<rparr>"





section \<open>Facts about the engine's closures\<close>



lemma fields_rcf_eq_formValues: "fields_rcf keys d up = formValues keys d up"
  by (simp add: fields_rcf_def formValues_def getValue_rcf_def)










lemma fieldErrors_callback_uninitialised:
  "shape_get schema k = Some t \<Longrightarrow>
   fieldErrors_callback schema None acc k = Inl (ReferenceError ''getValue'')"
  by (simp add: fieldErrors_callback_def read_const_def)

lemma useField_defined:
  "shape_get (ctx_schema c) name = Some t \<Longrightarrow> ctx_getError c name = NoError \<Longrightarrow>
   \<exists>props. useField c name options = Inr props"
  by (simp add: useField_def Let_def)


lemma useField_onChange:
  assumes "useField c name options = Inr props"
  shows "ip_onChange (inputProps props) args st =
     (case parsed_value (opt_parseValue options) args of
        Inl e \<Rightarrow> Inl e
      | Inr v \<Rightarrow>
          (let st1 =
             (if or_default (opt_isEqual options) defaultIsEqual v (ctx_getUpstreamValue c name)
              then ctx_setDiff c (\<lambda>prev. prev(name \<mapsto> JUndefined)) st
              else ctx_setDiff c (\<lambda>prev. prev(name \<mapsto> v)) st)
           in Inr (if or_default (opt_unTouchOn options) (ctx_defaultUntouchOn c) = UntouchChange
                   then ctx_setTouched c name False st1 else st1)))"
  using assms
  by (cases "shape_get (ctx_schema c) name")
     (auto simp: useField_def Let_def split: sum.splits if_splits)

lemma useField_onFocus:
  assumes "useField c name options = Inr props"
  shows "ip_onFocus (inputProps props) st =
     (if or_default (opt_unTouchOn options) (ctx_defaultUntouchOn c) = UntouchFocus
      then ctx_setTouched c name False st else st)"
  using assms
  by (cases "shape_get (ctx_schema c) name")
     (auto simp: useField_def Let_def split: sum.splits if_splits)

lemma useField_onBlur:
  assumes "useField c name options = Inr props"
  shows "ip_onBlur (inputProps props) st = ctx_setTouched c name True st"
  using assms
  by (cases "shape_get (ctx_schema c) name")
     (auto simp: useField_def Let_def split: sum.splits if_splits)




lemma ctx_sel:
  "ctx_schema (ctx schema fv fe st up fmt dsv duo) = schema"
  "ctx_formValues (ctx schema fv fe st up fmt dsv duo) = fv"
  "ctx_isDirty (ctx schema fv fe st up fmt dsv duo) = isDiff (diff st)"
  "ctx_isTouched (ctx schema fv fe st up fmt dsv duo) = isTouched (touchedFields st)"
  "ctx_getValue (ctx schema fv fe st up fmt dsv duo) = getValue fv"
  "ctx_setTouched (ctx schema fv fe st up fmt dsv duo) = setTouched"
  "ctx_getError (ctx schema fv fe st up fmt dsv duo) = getError fe"
  "ctx_getUpstreamValue (ctx schema fv fe st up fmt dsv duo) = getUpstreamValue up"
  "ctx_setDiff (ctx schema fv fe st up fmt dsv duo) = setDiff"
  "ctx_formatErrorMessage (ctx schema fv fe st up fmt dsv duo) = fmt"
  "ctx_defaultShowValidationOn (ctx schema fv fe st up fmt dsv duo) = dsv"
  "ctx_defaultUntouchOn (ctx schema fv fe st up fmt dsv duo) = duo"
  by (simp_all add: ctx_def)

lemma setters_sel:
  "diff (setDiff u st) = u (diff st)"
  "touchedFields (setDiff u st) = touchedFields st"
  "diff (setTouched f b st) = diff st"
  "touchedFields (setTouched f b st) = (touchedFields st)(f \<mapsto> b)"
  by (simp_all add: setDiff_def setTouched_def setTouchedFields_def)

lemma fire_never_keeps_touched:
  assumes "useField (ctx schema fv fe st0 up fmt dsv duo) name options = Inr props"
    and "or_default (opt_unTouchOn options) duo = UntouchNever"
    and "isTouched (touchedFields st) name"
  shows "isTouched (touchedFields (fire props ev st)) name"
proof (cases ev)
  case (Change args)
  then show ?thesis
    using useField_onChange[OF assms(1), of args st] assms(2,3)
    by (auto simp: fire_def ctx_sel setters_sel Let_def split: sum.splits)
next
  case Focus
  then show ?thesis
    using useField_onFocus[OF assms(1), of st] assms(2,3)
    by (simp add: fire_def ctx_sel)
next
  case Blur
  then show ?thesis
    using useField_onBlur[OF assms(1), of st]
    by (simp add: fire_def ctx_sel setters_sel isTouched_def)
qed

lemma fire_all_never_keeps_touched:
  assumes "useField (ctx schema fv fe st0 up fmt dsv duo) name options = Inr props"
    and "or_default (opt_unTouchOn options) duo = UntouchNever"
  shows "isTouched (touchedFields st) name \<Longrightarrow>
         isTouched (touchedFields (fire_all props evs st)) name"
proof (induction evs arbitrary: st)
  case Nil
  then show ?case by (simp add: fire_all_def)
next
  case (Cons ev evs)
  from fire_never_keeps_touched[OF assms Cons.prems]
  have "isTouched (touchedFields (fire props ev st)) name" .
  from Cons.IH[OF this] show ?case by (simp add: fire_all_def)
qed

text \<open>
  The handlers of a binding close over the name, the options and the upstream value
  only: every render of the same binding, on whatever state, makes the same handlers.
\<close>

lemma handlers_stable:
  assumes "useField (ctx schema fv fe st upstreamData fmt dsv duo) name options = Inr props"
    and "useField (ctx schema fv' fe' st' upstreamData fmt dsv duo) name options = Inr props'"
  shows "ip_onChange (inputProps props') = ip_onChange (inputProps props)"
    and "ip_onFocus (inputProps props') = ip_onFocus (inputProps props)"
    and "ip_onBlur (inputProps props') = ip_onBlur (inputProps props)"
proof -
  show "ip_onChange (inputProps props') = ip_onChange (inputProps props)"
    using useField_onChange[OF assms(1), unfolded ctx_sel]
      useField_onChange[OF assms(2), unfolded ctx_sel]
    by (simp add: fun_eq_iff)
  show "ip_onFocus (inputProps props') = ip_onFocus (inputProps props)"
    using useField_onFocus[OF assms(1), unfolded ctx_sel]
      useField_onFocus[OF assms(2), unfolded ctx_sel]
    by (simp add: fun_eq_iff)
  show "ip_onBlur (inputProps props') = ip_onBlur (inputProps props)"
    using useField_onBlur[OF assms(1), unfolded ctx_sel]
      useField_onBlur[OF assms(2), unfolded ctx_sel]
    by (simp add: fun_eq_iff)
qed





lemma example_names_not_inherited:
  "Object_prototype ''firstName'' = None" "Object_prototype ''email'' = None"
  "Object_prototype ''middleName'' = None" "Object_prototype ''role'' = None"
  "Object_prototype ''permissions'' = None" "Object_prototype ''site'' = None"
  "Object_prototype ''constructor'' = Some (JBuiltin ''Object'')"
  by (simp_all add: Object_prototype_def)


text \<open>
  With an \<^verbatim>\<open>isEqual\<close> that holds the parsed value equal to the upstream value, as the
  binding resolves it from its own options, \<^verbatim>\<open>onChange\<close> writes \<^verbatim>\<open>undefined\<close> under
  the key, and \<^verbatim>\<open>diff[name]\<close> reads the own key.
\<close>

lemma onChange_bound_isEqual_prunes:
  assumes "useField (ctx schema fv fe st0 upstreamData fmt dsv duo) name options = Inr props"
    and "parsed_value (opt_parseValue options) args = Inr v"
    and "or_default (opt_isEqual options) defaultIsEqual v (getUpstreamValue upstreamData name)"
  shows "\<exists>st'. ip_onChange (inputProps props) args st = Inr st' \<and>
           js_get (diff st') name = JUndefined \<and> \<not> isDiff (diff st') name"
proof -
  let ?st1 = "setDiff (\<lambda>prev. prev(name \<mapsto> JUndefined)) st"
  let ?st' = "if or_default (opt_unTouchOn options) duo = UntouchChange
              then setTouched name False ?st1 else ?st1"
  have fired: "ip_onChange (inputProps props) args st = Inr ?st'"
    using useField_onChange[OF assms(1), of args st, unfolded ctx_sel] assms(2,3)
    by (simp add: Let_def)
  have pruned: "js_get (diff ?st') name = JUndefined"
    by (simp add: setters_sel js_get_def)
  then have "\<not> isDiff (diff ?st') name"
    by (simp add: isDiff_def)
  with fired pruned show ?thesis by blast
qed

section \<open>The claims\<close>

text \<open>
  C1. The claim: \<^verbatim>\<open>handleSubmit(onSuccess, onFailure)\<close> with both callbacks supplied
  invokes exactly one of them, before it returns, and throws nothing for invalid
  input: \<^verbatim>\<open>onSuccess\<close> when the full record validates, \<^verbatim>\<open>onFailure\<close> otherwise.
  The host's state when \<^verbatim>\<open>handleSubmit\<close> returns is the state after the one
  callback the validation result selects; with callbacks that log their call, the log
  holds exactly one call. Both variants of the hook are covered. The body has no
  \<^verbatim>\<open>throw\<close> and \<^verbatim>\<open>safeParse\<close> reports a failure as a value, so the model of
  \<^verbatim>\<open>handleSubmit\<close> has no error result.
\<close>

theorem handleSubmit_calls_exactly_one_callback:
  "handleSubmit schema fv onSubmit (Some onError) h =
     (case safeParseObject schema fv of Inr data \<Rightarrow> onSubmit data h | Inl err \<Rightarrow> onError err h) \<and>
   handleSubmit schema fv log_onSubmit (Some log_onError) [] =
     (case safeParseObject schema fv of
        Inr data \<Rightarrow> [CalledOnSubmit data] | Inl err \<Rightarrow> [CalledOnError err]) \<and>
   length (handleSubmit schema fv log_onSubmit (Some log_onError) []) = 1 \<and>
   handleSubmit_rcf schema d upstreamData log_onSubmit (Some log_onError) [] =
     (case safeParseObject schema (fields_rcf (Object_keys (shape schema)) d upstreamData) of
        Inr data \<Rightarrow> [CalledOnSubmit data] | Inl err \<Rightarrow> [CalledOnError err]) \<and>
   length (handleSubmit_rcf schema d upstreamData log_onSubmit (Some log_onError) []) = 1"
  by (simp add: handleSubmit_def handleSubmit_rcf_def log_onSubmit_def log_onError_def
        split: sum.splits)

theorem handleSubmit_calls_exactly_one_callback_user_form:
  "handleSubmit userSchema
     (formValues (Object_keys (shape userSchema)) [''email'' \<mapsto> JStr ''not-an-email'']
        userUpstream)
     log_onSubmit (Some log_onError) [] =
     [CalledOnError
        (ZodError [ZodIssue [''email''] ''Invalid email address''] ''Invalid email address'')] \<and>
   handleSubmit userSchema (formValues (Object_keys (shape userSchema)) Map.empty userUpstream)
     log_onSubmit (Some log_onError) [] =
     [CalledOnSubmit
        [''email'' \<mapsto> JStr ''johndoe@example.com'', ''firstName'' \<mapsto> JStr ''John'']]"
proof -
  have invalid:
    "safeParseObject userSchema
       (formValues (Object_keys (shape userSchema)) [''email'' \<mapsto> JStr ''not-an-email'']
          userUpstream) =
     Inl (ZodError [ZodIssue [''email''] ''Invalid email address''] ''Invalid email address'')"
    by (simp add: safeParseObject_def userSchema_def Object_keys_def shape_get_def
          formValues_def getUpstreamValue_def js_get_def Object_prototype_def nullish_def userUpstream_def
          nonEmptyString_def emailString_def)
  have valid:
    "safeParseObject userSchema
       (formValues (Object_keys (shape userSchema)) Map.empty userUpstream) =
     Inr [''email'' \<mapsto> JStr ''johndoe@example.com'', ''firstName'' \<mapsto> JStr ''John'']"
    by (simp add: safeParseObject_def userSchema_def Object_keys_def shape_get_def
          formValues_def getUpstreamValue_def js_get_def Object_prototype_def nullish_def userUpstream_def
          nonEmptyString_def emailString_def)
  note rejected =
    handleSubmit_calls_exactly_one_callback
      [where schema = userSchema
         and fv = "formValues (Object_keys (shape userSchema))
                     [''email'' \<mapsto> JStr ''not-an-email''] userUpstream",
       THEN conjunct2, THEN conjunct1]
  note accepted =
    handleSubmit_calls_exactly_one_callback
      [where schema = userSchema
         and fv = "formValues (Object_keys (shape userSchema)) Map.empty userUpstream",
       THEN conjunct2, THEN conjunct1]
  show ?thesis
    unfolding rejected accepted invalid valid by simp
qed

text \<open>
  C2. The claim: the effective value of a field is \<^verbatim>\<open>Diff[f]\<close> whenever the Diff has
  an entry for \<^verbatim>\<open>f\<close>, for every value the entry may hold, and the upstream value
  otherwise. The engine's own test of an entry is \<^verbatim>\<open>isDiff\<close>,
  \<^verbatim>\<open>diff[f] !== undefined\<close>, and the overlay is \<^verbatim>\<open>diff[f] ?? upstream[f]\<close>: an
  entry that holds \<^verbatim>\<open>null\<close> counts as an entry and is read as the upstream value.
  On the profile form, whose middle name may be \<^verbatim>\<open>null\<close>, \<^verbatim>\<open>onChange(null)\<close>
  stores \<^verbatim>\<open>null\<close> in the Diff, the field is dirty, and both variants of
  \<^verbatim>\<open>getValue\<close> still give the upstream name.
\<close>

theorem null_entry_reads_upstream:
  "map_sum id (\<lambda>props. diff (fire props (Change [JNull]) (mount profileSchema defaultConfig)))
     (useField
        (rendered_ctx profileSchema profileUpstream Map.empty (mount profileSchema defaultConfig))
        ''middleName'' (noOptions\<lparr>opt_parseValue := Some firstArg\<rparr>))
     = Inr [''middleName'' \<mapsto> JNull]
   \<and> isDiff [''middleName'' \<mapsto> JNull] ''middleName''
   \<and> js_get [''middleName'' \<mapsto> JNull] ''middleName'' = JNull
   \<and> getValue_rcf [''middleName'' \<mapsto> JNull] profileUpstream ''middleName'' = JStr ''Lee''
   \<and> getValue
        (formValues (Object_keys (shape profileSchema)) [''middleName'' \<mapsto> JNull]
           profileUpstream)
        ''middleName'' = JStr ''Lee''"
  by (simp add: useField_def Let_def rendered_ctx_def ctx_def fire_def mount_def noOptions_def
        firstArg_def profileSchema_def profileUpstream_def shape_get_def parsed_value_def
        or_default_def defaultIsEqual_def getUpstreamValue_def js_get_def Object_prototype_def
        getError_def setDiff_def isDiff_def
        getValue_rcf_def getValue_def formValues_def nullish_def Object_keys_def)

text \<open>
  C3. The claim: an \<^verbatim>\<open>onChange\<close> whose parsed value is equal, by the field's
  \<^verbatim>\<open>isEqual\<close> function (default \<^verbatim>\<open>===\<close>), to the upstream value leaves the Diff
  without an entry for the field, and the field not dirty. The config type and the
  README let the function of a field be registered in the form's config; the hook
  reads the config's \<^verbatim>\<open>isEqual\<close> nowhere, so a binding without an \<^verbatim>\<open>isEqual\<close> of
  its own compares with \<^verbatim>\<open>===\<close> whatever the form registers. Every parsed value
  that \<^verbatim>\<open>===\<close> tells apart from the upstream value is then stored in the Diff and the
  field is dirty, also when the registered function holds the two equal, as it does
  for the README's permissions in another order. With the \<^verbatim>\<open>isEqual\<close> of the binding
  the entry is pruned (\<open>onChange_bound_isEqual_prunes\<close>).
\<close>

theorem form_level_isEqual_is_not_consulted:
  assumes "useField (configured_ctx schema upstreamData config fe st0) name options = Inr props"
    and "opt_isEqual options = None"
    and "parsed_value (opt_parseValue options) args = Inr v"
    and "\<not> strict_eq v (getUpstreamValue upstreamData name)"
    and "v \<noteq> JUndefined"
  shows "\<exists>st'. ip_onChange (inputProps props) args st = Inr st' \<and>
           js_get (diff st') name = v \<and> isDiff (diff st') name"
proof -
  let ?st1 = "setDiff (\<lambda>prev. prev(name \<mapsto> v)) st"
  let ?st' = "if or_default (opt_unTouchOn options)
                   (or_default (cfg_defaultUntouchOn config) UntouchFocus) = UntouchChange
              then setTouched name False ?st1 else ?st1"
  have compared: "\<not> or_default (opt_isEqual options) defaultIsEqual v
                      (getUpstreamValue upstreamData name)"
    using assms(2,4) by (simp add: or_default_def defaultIsEqual_def)
  have fired: "ip_onChange (inputProps props) args st = Inr ?st'"
    using useField_onChange[OF assms(1)[unfolded configured_ctx_def], of args st, unfolded ctx_sel]
      assms(3) compared
    by (simp add: Let_def)
  have stored: "js_get (diff ?st') name = v"
    by (simp add: setters_sel js_get_def)
  then have "isDiff (diff ?st') name"
    using assms(5) by (simp add: isDiff_def)
  with fired stored show ?thesis by blast
qed

theorem form_level_isEqual_is_not_consulted_permissions_form:
  "\<exists>props st'.
     useField
       (configured_ctx permissionsSchema permissionsUpstream permissionsConfig Map.empty
          (mount permissionsSchema permissionsConfig))
       ''permissions'' (noOptions\<lparr>opt_parseValue := Some firstArg\<rparr>) = Inr props \<and>
     documented_isEqual permissionsConfig (noOptions\<lparr>opt_parseValue := Some firstArg\<rparr>)
       ''permissions'' (JArr 2 [JStr ''Write'', JStr ''Read''])
       (getUpstreamValue permissionsUpstream ''permissions'') \<and>
     ip_onChange (inputProps props) [JArr 2 [JStr ''Write'', JStr ''Read'']]
       (mount permissionsSchema permissionsConfig) = Inr st' \<and>
     js_get (diff st') ''permissions'' = JArr 2 [JStr ''Write'', JStr ''Read''] \<and>
     isDiff (diff st') ''permissions''"
proof -
  let ?c = "configured_ctx permissionsSchema permissionsUpstream permissionsConfig Map.empty
              (mount permissionsSchema permissionsConfig)"
  let ?opts = "noOptions\<lparr>opt_parseValue := Some firstArg\<rparr>"
  let ?v = "JArr 2 [JStr ''Write'', JStr ''Read'']"
  have field: "shape_get (ctx_schema ?c) ''permissions'' = Some stringArray"
    by (simp add: configured_ctx_def ctx_sel shape_get_def permissionsSchema_def)
  have no_error: "ctx_getError ?c ''permissions'' = NoError"
    by (simp add: configured_ctx_def ctx_sel getError_def example_names_not_inherited)
  from useField_defined[OF field no_error, of ?opts] obtain props where
    props: "useField ?c ''permissions'' ?opts = Inr props" by blast
  have registered: "documented_isEqual permissionsConfig ?opts ''permissions'' ?v
       (getUpstreamValue permissionsUpstream ''permissions'')"
    by (simp add: documented_isEqual_def permissionsConfig_def defaultConfig_def noOptions_def
          or_default_def sameMembers_def getUpstreamValue_def js_get_def permissionsUpstream_def)
  have unbound: "opt_isEqual ?opts = None"
    by (simp add: noOptions_def)
  have parsed: "parsed_value (opt_parseValue ?opts) [?v] = Inr ?v"
    by (simp add: parsed_value_def firstArg_def)
  have differs: "\<not> strict_eq ?v (getUpstreamValue permissionsUpstream ''permissions'')"
    by (simp add: getUpstreamValue_def js_get_def permissionsUpstream_def)
  from form_level_isEqual_is_not_consulted
         [OF props unbound parsed differs, of "mount permissionsSchema permissionsConfig"]
  obtain st' where
    "ip_onChange (inputProps props) [?v] (mount permissionsSchema permissionsConfig) = Inr st'"
    "js_get (diff st') ''permissions'' = ?v" "isDiff (diff st') ''permissions''"
    by auto
  with props registered show ?thesis by blast
qed

text \<open>
  C4. The claim: for every non-empty schema, constructing the engine and evaluating its
  derivations is total and never raises. In the current hook the reduce that computes
  \<^verbatim>\<open>fieldErrors\<close> calls \<^verbatim>\<open>getValue\<close> for the first key of the schema, and
  \<^verbatim>\<open>getValue\<close> is a \<^verbatim>\<open>const\<close> declared below the reduce: every render of a schema
  with at least one field throws a ReferenceError, whatever the upstream value, the
  config and the state are. The older variant declares \<^verbatim>\<open>getValue\<close> first, and its
  reduce returns for every input (\<open>fieldErrors_rcf_result\<close>).
\<close>

theorem useForm_throws_on_every_field:
  "shape schema \<noteq> [] \<Longrightarrow>
   useForm schema upstreamData config st = Inl (ReferenceError ''getValue'')"
proof -
  assume "shape schema \<noteq> []"
  then obtain k t rest where sh: "shape schema = (k, t) # rest"
    by (cases "shape schema") auto
  then have "shape_get schema k = Some t"
    by (simp add: shape_get_def)
  then have "fieldErrors schema None (Object_keys (shape schema)) = Inl (ReferenceError ''getValue'')"
    using sh by (simp add: fieldErrors_def Object_keys_def fieldErrors_callback_uninitialised)
  then show ?thesis
    by (simp add: useForm_def Let_def)
qed

theorem useForm_throws_on_user_form:
  "shape userSchema \<noteq> [] \<and>
   useForm userSchema userUpstream defaultConfig (mount userSchema defaultConfig) =
     Inl (ReferenceError ''getValue'')"
  using useForm_throws_on_every_field
          [of userSchema userUpstream defaultConfig "mount userSchema defaultConfig"]
  by (simp add: userSchema_def)






text \<open>
  C7. The claim: \<^verbatim>\<open>onBlur\<close> sets touched to true; with \<^verbatim>\<open>unTouchOn = "focus"\<close> a
  following \<^verbatim>\<open>onFocus\<close> sets it to false; with \<^verbatim>\<open>unTouchOn = "never"\<close> no sequence
  of \<^verbatim>\<open>onFocus\<close> and \<^verbatim>\<open>onChange\<close> events sets it back to false once \<^verbatim>\<open>onBlur\<close> has
  set it. The policy is the option of the binding, or the form's default when the
  option is not given. The first part holds from any state, touched or not, and the
  last for every sequence of the binding's events, blurs included.
\<close>

theorem touch_policy:
  assumes "useField (ctx schema fv fe st0 upstreamData fmt dsv duo) name options = Inr props"
  shows "isTouched (touchedFields (fire props Blur st)) name \<and>
     (or_default (opt_unTouchOn options) duo = UntouchFocus \<longrightarrow>
        \<not> isTouched (touchedFields (fire props Focus (fire props Blur st))) name) \<and>
     (or_default (opt_unTouchOn options) duo = UntouchNever \<longrightarrow>
        (\<forall>evs. isTouched (touchedFields (fire_all props evs (fire props Blur st))) name))"
proof -
  have blur: "isTouched (touchedFields (fire props Blur st)) name"
    using useField_onBlur[OF assms, of st]
    by (simp add: fire_def ctx_sel setters_sel isTouched_def)
  have focus: "\<not> isTouched (touchedFields (fire props Focus (fire props Blur st))) name"
    if "or_default (opt_unTouchOn options) duo = UntouchFocus"
    using useField_onFocus[OF assms, of "fire props Blur st"] that
    by (simp add: fire_def ctx_sel setters_sel isTouched_def)
  have never: "isTouched (touchedFields (fire_all props evs (fire props Blur st))) name"
    if "or_default (opt_unTouchOn options) duo = UntouchNever" for evs
    using fire_all_never_keeps_touched[OF assms that blur] .
  from blur focus never show ?thesis by blast
qed

theorem touch_policy_user_form:
  "\<exists>p q.
     useField (rendered_ctx userSchema userUpstream Map.empty (mount userSchema defaultConfig))
       ''email'' noOptions = Inr p \<and>
     \<not> isTouched (touchedFields (mount userSchema defaultConfig)) ''email'' \<and>
     isTouched (touchedFields (fire p Blur (mount userSchema defaultConfig))) ''email'' \<and>
     or_default (opt_unTouchOn noOptions) UntouchFocus = UntouchFocus \<and>
     \<not> isTouched
         (touchedFields (fire p Focus (fire p Blur (mount userSchema defaultConfig)))) ''email'' \<and>
     useField (rendered_ctx userSchema userUpstream Map.empty (mount userSchema defaultConfig))
       ''email'' (noOptions\<lparr>opt_unTouchOn := Some UntouchNever\<rparr>) = Inr q \<and>
     or_default (opt_unTouchOn (noOptions\<lparr>opt_unTouchOn := Some UntouchNever\<rparr>)) UntouchFocus
       = UntouchNever \<and>
     isTouched
       (touchedFields
          (fire_all q [Focus, Change [changeEvent ''jd@example.com''], Focus, Change []]
             (fire q Blur (mount userSchema defaultConfig))))
       ''email''"
proof -
  let ?c = "rendered_ctx userSchema userUpstream Map.empty (mount userSchema defaultConfig)"
  let ?never = "noOptions\<lparr>opt_unTouchOn := Some UntouchNever\<rparr>"
  have field: "shape_get (ctx_schema ?c) ''email'' = Some emailString"
    by (simp add: rendered_ctx_def ctx_sel shape_get_def userSchema_def)
  have no_error: "ctx_getError ?c ''email'' = NoError"
    by (simp add: rendered_ctx_def ctx_sel getError_def example_names_not_inherited)
  from useField_defined[OF field no_error, of noOptions] obtain p where
    p: "useField ?c ''email'' noOptions = Inr p" by blast
  from useField_defined[OF field no_error, of ?never] obtain q where
    q: "useField ?c ''email'' ?never = Inr q" by blast
  have untouched: "\<not> isTouched (touchedFields (mount userSchema defaultConfig)) ''email''"
    by (simp add: mount_def initTouched_def defaultConfig_def Object_keys_def userSchema_def
          isTouched_def)
  have on_focus: "or_default (opt_unTouchOn noOptions) UntouchFocus = UntouchFocus"
    by (simp add: or_default_def noOptions_def)
  have on_never: "or_default (opt_unTouchOn ?never) UntouchFocus = UntouchNever"
    by (simp add: or_default_def)
  from touch_policy[OF p[unfolded rendered_ctx_def], of "mount userSchema defaultConfig"] on_focus
  have a: "isTouched (touchedFields (fire p Blur (mount userSchema defaultConfig))) ''email''"
    and b: "\<not> isTouched
         (touchedFields (fire p Focus (fire p Blur (mount userSchema defaultConfig)))) ''email''"
    by blast+
  from touch_policy[OF q[unfolded rendered_ctx_def], of "mount userSchema defaultConfig"] on_never
  have c: "isTouched
       (touchedFields
          (fire_all q [Focus, Change [changeEvent ''jd@example.com''], Focus, Change []]
             (fire q Blur (mount userSchema defaultConfig))))
       ''email''"
    by blast
  from p q untouched a on_focus b on_never c show ?thesis by blast
qed






text \<open>
  C10. The claim: the second callback of \<^verbatim>\<open>handleSubmit\<close> is optional, and when it is
  omitted and the full-record validation fails, no callback is invoked and
  \<^verbatim>\<open>handleSubmit\<close> returns normally. The host's state is then as it was before the
  call, and the log of a logging \<^verbatim>\<open>onSubmit\<close> stays empty.
\<close>

theorem handleSubmit_without_onError_drops_failure:
  "(\<not> success (safeParseObject schema fv) \<longrightarrow>
      handleSubmit schema fv onSubmit None h = h \<and>
      handleSubmit schema fv log_onSubmit None [] = []) \<and>
   (\<not> success (safeParseObject schema (fields_rcf (Object_keys (shape schema)) d upstreamData)) \<longrightarrow>
      handleSubmit_rcf schema d upstreamData onSubmit None h = h \<and>
      handleSubmit_rcf schema d upstreamData log_onSubmit None [] = [])"
  by (simp add: handleSubmit_def handleSubmit_rcf_def success_def split: sum.splits)

theorem handleSubmit_without_onError_drops_failure_user_form:
  "\<not> success
       (safeParseObject userSchema
          (formValues (Object_keys (shape userSchema)) [''email'' \<mapsto> JStr ''not-an-email'']
             userUpstream)) \<and>
   handleSubmit userSchema
     (formValues (Object_keys (shape userSchema)) [''email'' \<mapsto> JStr ''not-an-email'']
        userUpstream)
     log_onSubmit None [] = [] \<and>
   handleSubmit_rcf userSchema [''email'' \<mapsto> JStr ''not-an-email''] userUpstream
     log_onSubmit None [] = []"
proof -
  let ?d = "[''email'' \<mapsto> JStr ''not-an-email'']"
  have invalid:
    "\<not> success (safeParseObject userSchema
         (formValues (Object_keys (shape userSchema)) ?d userUpstream))"
    by (simp add: success_def safeParseObject_def userSchema_def Object_keys_def shape_get_def
          formValues_def getUpstreamValue_def js_get_def Object_prototype_def nullish_def userUpstream_def
          nonEmptyString_def emailString_def)
  then have invalid_rcf:
    "\<not> success (safeParseObject userSchema
         (fields_rcf (Object_keys (shape userSchema)) ?d userUpstream))"
    by (simp add: fields_rcf_eq_formValues)
  from handleSubmit_without_onError_drops_failure
         [where schema = userSchema
            and fv = "formValues (Object_keys (shape userSchema)) ?d userUpstream"
            and d = ?d and upstreamData = userUpstream
            and onSubmit = log_onSubmit and h = "[]"]
       invalid invalid_rcf
  show ?thesis by blast
qed

end
